theory Spec2Isabelle
  imports Complex_Main "HOL-Library.Word"
begin

unbundle bit_operations_syntax

section \<open>Data model of quant_utils.py\<close>

text \<open>
  The element types of \<open>TensorProto\<close> that the module mentions by name. Every other
  element type (FLOAT, INT32, ...) is \<open>OTHER\<close> with its protobuf number.
\<close>

datatype tensor_type =
    UINT8 | INT8 | UINT16 | INT16
  | FLOAT8E4M3FN | FLOAT8E4M3FNUZ | FLOAT8E5M2 | FLOAT8E5M2FNUZ
  | OTHER nat

text \<open>The numpy storage types of \<open>ONNX_TYPE_TO_NP_TYPE\<close>.\<close>

datatype np_dtype = np_int8 | np_uint8 | np_int16 | np_uint16 | np_float8e4m3fn

text \<open>
  The exceptions of the module, one constructor for each \<open>raise\<close> (and the
  \<open>assert\<close> of \<open>quantize_nparray\<close>), named after the error kinds of the
  specification. \<open>QuantizationProducedNaN\<close> carries the four numbers that the
  message of the RuntimeError prints: minimum and maximum of the data, minimum and maximum
  of the quantized bytes. \<open>EvaluatorValueError\<close> is the ValueError that comes out of
  the ONNX reference evaluator at line 175 when the buffer is empty.
\<close>

datatype error =
    InvalidRange int int
  | ZeroDivisionError
  | UnsupportedKind tensor_type
  | AssertionError tensor_type
  | InvalidZeroPoint int
  | UnsupportedOption
  | EvaluatorValueError
  | QuantizationProducedNaN real real "8 word" "8 word"

subsection \<open>Range tables\<close>

definition ONNX_TYPE_TO_NP_TYPE :: "tensor_type \<rightharpoonup> np_dtype" where
  "ONNX_TYPE_TO_NP_TYPE =
     [INT8 \<mapsto> np_int8, UINT8 \<mapsto> np_uint8, INT16 \<mapsto> np_int16, UINT16 \<mapsto> np_uint16,
      FLOAT8E4M3FN \<mapsto> np_float8e4m3fn]"

definition ONNX_INT_TYPE_RANGE :: "tensor_type \<rightharpoonup> int \<times> int" where
  "ONNX_INT_TYPE_RANGE =
     [UINT8 \<mapsto> (0, 255), INT8 \<mapsto> (-128, 127), UINT16 \<mapsto> (0, 65535),
      INT16 \<mapsto> (-32768, 32767)]"

definition ONNX_INT_TYPE_SYMMETRIC_RANGE :: "tensor_type \<rightharpoonup> int \<times> int" where
  "ONNX_INT_TYPE_SYMMETRIC_RANGE = [INT8 \<mapsto> (-127, 127), INT16 \<mapsto> (-32767, 32767)]"

definition ONNX_INT_TYPE_REDUCED_RANGE :: "tensor_type \<rightharpoonup> int \<times> int" where
  "ONNX_INT_TYPE_REDUCED_RANGE =
     [UINT8 \<mapsto> (0, 127), INT8 \<mapsto> (-64, 64), UINT16 \<mapsto> (0, 32767),
      INT16 \<mapsto> (-16384, 16384)]"

text \<open>
  \<open>get_qmin_qmax_for_qType\<close>: float 8 raises NotImplementedError; then the table is
  chosen (reduced first, symmetric only when the type has a symmetric entry, else full);
  a type missing from the chosen table (\<open>.get\<close> gives None) raises ValueError. Both
  errors are the specification's UnsupportedKind.
\<close>

definition get_qmin_qmax_for_qType :: "tensor_type \<Rightarrow> bool \<Rightarrow> bool \<Rightarrow> error + int \<times> int" where
  "get_qmin_qmax_for_qType qType reduce_range symmetric =
     (if qType = FLOAT8E4M3FN then Inl (UnsupportedKind qType)
      else
        let qrange =
          (if reduce_range then ONNX_INT_TYPE_REDUCED_RANGE qType
           else if symmetric \<and> ONNX_INT_TYPE_SYMMETRIC_RANGE qType \<noteq> None
             then ONNX_INT_TYPE_SYMMETRIC_RANGE qType
           else ONNX_INT_TYPE_RANGE qType)
        in case qrange of None \<Rightarrow> Inl (UnsupportedKind qType) | Some r \<Rightarrow> Inr r)"

text \<open>\<open>get_qrange_for_qType\<close>: the width of the range.\<close>

definition get_qrange_for_qType :: "tensor_type \<Rightarrow> bool \<Rightarrow> bool \<Rightarrow> error + int" where
  "get_qrange_for_qType qType reduce_range symmetric =
     (case get_qmin_qmax_for_qType qType reduce_range symmetric of
        Inl e \<Rightarrow> Inl e
      | Inr (qmin, qmax) \<Rightarrow> Inr (qmax - qmin))"

subsection \<open>Numbers\<close>

text \<open>
  Floating-point numbers are idealised: a finite Python or numpy float is a \<open>real\<close> and
  arithmetic on finite numbers is exact, so rounding error, overflow and signed zeros are
  outside the model. The one non-finite value that the module produces from finite data
  by its own structure is kept: \<open>numpy.std\<close> of an empty array is NaN, and NaN divided
  by a number is NaN.
\<close>

datatype np_float = Finite real | NaN

text \<open>
  Python's \<open>round(x)\<close> on a float and numpy's \<open>ndarray.round()\<close>: to the nearest
  integer, a tie to the even one.
\<close>

definition py_round :: "real \<Rightarrow> int" where
  "py_round x =
     (let f = \<lfloor>x\<rfloor>; d = x - of_int f
      in if d < 1 / 2 then f else if 1 / 2 < d then f + 1 else if even f then f else f + 1)"

text \<open>\<open>numpy.finfo(numpy.float32).tiny\<close>, the smallest positive normal float32.\<close>

definition float32_tiny :: real where
  "float32_tiny = 1 / 2 ^ 126"

text \<open>
  \<open>min(data)\<close> and \<open>max(data)\<close> of Python walk the sequence from its first element;
  on an empty sequence they raise ValueError, which every caller in the module excludes
  by a length test, so the functions are only written for the non-empty case.
\<close>

fun py_min :: "'a::linorder \<Rightarrow> 'a list \<Rightarrow> 'a" where
  "py_min x xs = foldl min x xs"

fun py_max :: "'a::linorder \<Rightarrow> 'a list \<Rightarrow> 'a" where
  "py_max x xs = foldl max x xs"

text \<open>
  \<open>numpy.std\<close> (population standard deviation, \<open>ddof = 0\<close>); the mean of an empty
  array is NaN.
\<close>

definition numpy_std :: "real list \<Rightarrow> np_float" where
  "numpy_std xs =
     (if xs = [] then NaN
      else
        let n = real (length xs); m = sum_list xs / n
        in Finite (sqrt (sum_list (map (\<lambda>x. (x - m)\<^sup>2) xs) / n)))"

subsection \<open>Quantized buffers\<close>

text \<open>
  The array that \<open>quantize_nparray\<close> returns: integers of one of the four native
  storage types, or the bytes of a float 8 array.
\<close>

datatype ndarray = IntArray np_dtype "int list" | Float8Array "8 word list"

text \<open>
  \<open>astype(dtype)\<close> on a float array whose elements are whole numbers. A value inside
  the range of the storage type is kept. Outside it the C conversion is not defined by
  the language; the model takes the two's complement wrap that numpy shows on common
  hardware, and no theorem below depends on that choice.
\<close>

definition astype :: "np_dtype \<Rightarrow> int \<Rightarrow> int" where
  "astype dtype v =
     (case dtype of
        np_int8 \<Rightarrow> sint (word_of_int v :: 8 word)
      | np_uint8 \<Rightarrow> uint (word_of_int v :: 8 word)
      | np_int16 \<Rightarrow> sint (word_of_int v :: 16 word)
      | np_uint16 \<Rightarrow> uint (word_of_int v :: 16 word)
      | np_float8e4m3fn \<Rightarrow> uint (word_of_int v :: 8 word))"

text \<open>\<open>numpy.clip(x, lo, hi)\<close> is \<open>minimum(maximum(x, lo), hi)\<close>, also when \<open>lo > hi\<close>.\<close>

definition np_clip :: "int \<Rightarrow> int \<Rightarrow> int \<Rightarrow> int" where
  "np_clip x lo hi = min (max x lo) hi"

text \<open>\<open>quantized_data.astype(numpy.uint8).ravel()\<close>: the bytes of the array.\<close>

definition astype_uint8 :: "ndarray \<Rightarrow> 8 word list" where
  "astype_uint8 a = (case a of IntArray _ vs \<Rightarrow> map word_of_int vs | Float8Array bs \<Rightarrow> bs)"

subsection \<open>quantize_nparray\<close>

text \<open>
  The float 8 branch builds a one-node QuantizeLinear model and runs it with the ONNX
  reference evaluator. That kernel is not part of this module: it is the parameter
  \<open>f8\<close>, which maps one element and the scale to the byte of the float 8 encoding
  (the kernel works elementwise on a scalar scale). On an empty buffer the evaluator does
  not return an empty array: its QuantizeLinear applies the encoder through
  \<open>numpy.vectorize\<close> without output types, which raises ValueError on an input of
  size 0, and \<open>ref.run\<close> passes the error on.

  The integer branch divides by \<open>scale\<close>. With a zero or NaN scale numpy does not
  raise: it produces infinities and NaNs, and the integer that a NaN is cast to depends on
  the platform. The model gives no value there (\<open>undefined\<close>); every statement about
  the integer branch is about a finite non-zero scale, and \<open>quantize_data\<close> never
  passes another one to it (lemma \<open>compute_scale_zp_result\<close>).
\<close>

text \<open>
  Lines 180 and 181. \<open>low\<close> and \<open>high\<close> are optional integer bounds; \<open>None\<close>
  leaves the bound of the type.
\<close>

definition cliplow :: "int \<Rightarrow> int option \<Rightarrow> int" where
  "cliplow qmin low = (case low of Some l \<Rightarrow> max qmin l | None \<Rightarrow> qmin)"

definition cliphigh :: "int \<Rightarrow> int option \<Rightarrow> int" where
  "cliphigh qmax high = (case high of Some h \<Rightarrow> min qmax h | None \<Rightarrow> qmax)"

text \<open>Lines 182 to 184 on one element.\<close>

definition quantize_elem :: "np_dtype \<Rightarrow> real \<Rightarrow> int \<Rightarrow> int \<Rightarrow> int \<Rightarrow> real \<Rightarrow> int" where
  "quantize_elem dtype scale zero_point lo hi x =
     astype dtype (np_clip (py_round (x / scale) + zero_point) lo hi)"

definition quantize_nparray ::
  "(real \<Rightarrow> np_float \<Rightarrow> 8 word) \<Rightarrow> tensor_type \<Rightarrow> real list \<Rightarrow> np_float \<Rightarrow> int \<Rightarrow>
   int option \<Rightarrow> int option \<Rightarrow> error + ndarray" where
  "quantize_nparray f8 qType arr scale zero_point low high =
     (case ONNX_TYPE_TO_NP_TYPE qType of
        None \<Rightarrow> Inl (AssertionError qType)
      | Some dtype \<Rightarrow>
          if qType \<in> {FLOAT8E4M3FN, FLOAT8E4M3FNUZ, FLOAT8E5M2, FLOAT8E5M2FNUZ} then
            if zero_point \<noteq> 0 then Inl (InvalidZeroPoint zero_point)
            else if arr = [] then Inl EvaluatorValueError
            else Inr (Float8Array (map (\<lambda>x. f8 x scale) arr))
          else
            (case get_qmin_qmax_for_qType qType False True of
               Inl e \<Rightarrow> Inl e
             | Inr (qmin, qmax) \<Rightarrow>
                 (case scale of
                    Finite s \<Rightarrow>
                      if s \<noteq> 0
                      then Inr (IntArray dtype
                             (map (quantize_elem dtype s zero_point
                                     (cliplow qmin low) (cliphigh qmax high)) arr))
                      else undefined
                  | NaN \<Rightarrow> undefined)))"

subsection \<open>compute_scale_zp\<close>

text \<open>
  Lines 211 to 217: zero is put into the range, then the range is symmetrized if asked.
\<close>

definition adjust_range :: "real \<Rightarrow> real \<Rightarrow> bool \<Rightarrow> real \<times> real" where
  "adjust_range rmin rmax symmetric =
     (let rmin = min rmin 0; rmax = max rmax 0
      in if symmetric then (let absmax = max \<bar>rmin\<bar> \<bar>rmax\<bar> in (- absmax, absmax))
         else (rmin, rmax))"

text \<open>
  The arguments are Python numbers: \<open>float(qmax - qmin)\<close> is zero when
  \<open>qmin = qmax = 0\<close>, and the division raises ZeroDivisionError. The result is the
  list \<open>[zero_point, scale]\<close>.
\<close>

definition compute_scale_zp :: "real \<Rightarrow> real \<Rightarrow> int \<Rightarrow> int \<Rightarrow> bool \<Rightarrow> error + int \<times> real" where
  "compute_scale_zp rmin rmax qmin qmax symmetric =
     (if qmin > 0 \<or> qmax < 0 then Inl (InvalidRange qmin qmax)
      else
        let (rmin, rmax) = adjust_range rmin rmax symmetric
        in if qmax - qmin = 0 then Inl ZeroDivisionError
           else
             let scale = (rmax - rmin) / of_int (qmax - qmin)
             in if scale < float32_tiny then Inr (0, 1)
                else Inr (py_round (of_int qmin - rmin / scale), scale))"

subsection \<open>compute_scale_zp_float8\<close>

text \<open>
  \<open>FLOAT8_DISTRIBUTIONS\<close> caches the finite values that the 256 bytes of E4M3FN decode
  to (the decoder is \<open>onnx.numpy_helper.float8e4m3_to_float32\<close>, outside this module).
  The cache only saves the recomputation, so the model takes the one number that is read
  from it: \<open>std_f8\<close>, the standard deviation of those values. Any other element type
  raises ValueError.
\<close>

definition compute_scale_zp_float8 :: "real \<Rightarrow> tensor_type \<Rightarrow> np_float \<Rightarrow> error + int \<times> np_float" where
  "compute_scale_zp_float8 std_f8 element_type std =
     (if element_type = FLOAT8E4M3FN
      then Inr (0, case std of Finite s \<Rightarrow> Finite (s / std_f8) | NaN \<Rightarrow> NaN)
      else Inl (UnsupportedKind element_type))"

subsection \<open>quantize_data\<close>

text \<open>
  The result is the tuple \<open>(rmin, rmax, zero_point, scale, quantized_data)\<close>. The
  check after the float 8 transform looks at the low seven bits of every byte.
\<close>

definition nan_byte :: "8 word \<Rightarrow> bool" where
  "nan_byte b = (b AND 127 = 127)"

text \<open>
  The RuntimeError of line 295. Its message prints \<open>np_data.min()\<close>,
  \<open>np_data.max()\<close>, \<open>quantized_data.min()\<close> and \<open>quantized_data.max()\<close>; it is
  only built when a byte was found, so neither array is empty.
\<close>

definition np_min :: "'a::linorder list \<Rightarrow> 'a" where
  "np_min xs = py_min (hd xs) (tl xs)"

definition np_max :: "'a::linorder list \<Rightarrow> 'a" where
  "np_max xs = py_max (hd xs) (tl xs)"

definition nan_error :: "real list \<Rightarrow> ndarray \<Rightarrow> error" where
  "nan_error data quantized_data =
     QuantizationProducedNaN (np_min data) (np_max data)
       (np_min (astype_uint8 quantized_data)) (np_max (astype_uint8 quantized_data))"

definition quantize_data ::
  "(real \<Rightarrow> np_float \<Rightarrow> 8 word) \<Rightarrow> real \<Rightarrow> real list \<Rightarrow> tensor_type \<Rightarrow> bool \<Rightarrow> bool \<Rightarrow>
   error + real \<times> real \<times> int \<times> np_float \<times> ndarray" where
  "quantize_data f8 std_f8 data qType symmetric reduce_range =
     (let (rmin, rmax) = (case data of [] \<Rightarrow> (0, 0) | x # xs \<Rightarrow> (py_min x xs, py_max x xs))
      in
        if qType = FLOAT8E4M3FN then
          if reduce_range then Inl UnsupportedOption
          else
            (case compute_scale_zp_float8 std_f8 qType (numpy_std data) of
               Inl e \<Rightarrow> Inl e
             | Inr (zero_point, scale) \<Rightarrow>
                 (case quantize_nparray f8 qType data scale zero_point None None of
                    Inl e \<Rightarrow> Inl e
                  | Inr quantized_data \<Rightarrow>
                      if list_ex nan_byte (astype_uint8 quantized_data)
                      then Inl (nan_error data quantized_data)
                      else Inr (rmin, rmax, zero_point, scale, quantized_data)))
        else if qType \<in> {INT8, UINT8, INT16, UINT16} then
          (case (if data \<noteq> []
                 then (case get_qmin_qmax_for_qType qType reduce_range symmetric of
                         Inl e \<Rightarrow> Inl e
                       | Inr (qmin, qmax) \<Rightarrow> compute_scale_zp rmin rmax qmin qmax symmetric)
                 else Inr (0, 1)) of
             Inl e \<Rightarrow> Inl e
           | Inr (zero_point, scale) \<Rightarrow>
               (case quantize_nparray f8 qType data (Finite scale) zero_point None None of
                  Inl e \<Rightarrow> Inl e
                | Inr quantized_data \<Rightarrow>
                    Inr (rmin, rmax, zero_point, Finite scale, quantized_data)))
        else Inl (UnsupportedKind qType))"

section \<open>The transform as the specification words it\<close>

text \<open>
  Section 4.4 of the specification, integer kinds: \<open>q = round(buffer / scale) + zero_point\<close>,
  then clip elementwise to \<open>[max(qmin, low), min(qmax, high)]\<close>, then cast to the native
  storage type. To clip to an interval is to move a value below it to the lower end and a
  value above it to the upper end. This definition follows those words, not the code.
\<close>

definition spec_clip :: "int \<Rightarrow> int \<Rightarrow> int \<Rightarrow> int" where
  "spec_clip lo hi q = (if q < lo then lo else if hi < q then hi else q)"

definition spec_transform ::
  "np_dtype \<Rightarrow> int \<Rightarrow> int \<Rightarrow> real list \<Rightarrow> real \<Rightarrow> int \<Rightarrow> int option \<Rightarrow> int option \<Rightarrow>
   int list" where
  "spec_transform dtype qmin qmax buffer scale zero_point low high =
     (let lo = (case low of None \<Rightarrow> qmin | Some l \<Rightarrow> max qmin l);
          hi = (case high of None \<Rightarrow> qmax | Some h \<Rightarrow> min qmax h)
      in map (\<lambda>x. astype dtype (spec_clip lo hi (py_round (x / scale) + zero_point))) buffer)"

section \<open>Properties\<close>

lemmas range_table_defs =
  ONNX_INT_TYPE_RANGE_def ONNX_INT_TYPE_SYMMETRIC_RANGE_def ONNX_INT_TYPE_REDUCED_RANGE_def

lemmas quantize_data_eval_defs =
  quantize_data_def get_qmin_qmax_for_qType_def range_table_defs compute_scale_zp_def
  adjust_range_def float32_tiny_def py_round_def quantize_nparray_def
  ONNX_TYPE_TO_NP_TYPE_def quantize_elem_def cliplow_def cliphigh_def np_clip_def astype_def
  compute_scale_zp_float8_def numpy_std_def astype_uint8_def nan_byte_def

subsection \<open>The range tables\<close>

text \<open>
  Claim C3. For each of the four integer kinds \<open>get_qmin_qmax_for_qType\<close> returns the
  literal table entry: the reduced entry whenever \<open>reduce_range\<close> is set, whatever
  \<open>symmetric\<close> is; otherwise the symmetric entry for INT8 and INT16 when \<open>symmetric\<close>
  is set; otherwise the full native range (also for UINT8 and UINT16 with \<open>symmetric\<close>
  set, which have no symmetric entry). Every pair that the function returns, for any
  type, has \<open>qmin \<le> 0 \<le> qmax\<close>.
\<close>

theorem get_qmin_qmax_for_qType_table:
  "get_qmin_qmax_for_qType UINT8 True symmetric = Inr (0, 127) \<and>
   get_qmin_qmax_for_qType INT8 True symmetric = Inr (- 64, 64) \<and>
   get_qmin_qmax_for_qType UINT16 True symmetric = Inr (0, 32767) \<and>
   get_qmin_qmax_for_qType INT16 True symmetric = Inr (- 16384, 16384) \<and>
   get_qmin_qmax_for_qType INT8 False True = Inr (- 127, 127) \<and>
   get_qmin_qmax_for_qType INT16 False True = Inr (- 32767, 32767) \<and>
   get_qmin_qmax_for_qType UINT8 False symmetric = Inr (0, 255) \<and>
   get_qmin_qmax_for_qType UINT16 False symmetric = Inr (0, 65535) \<and>
   get_qmin_qmax_for_qType INT8 False False = Inr (- 128, 127) \<and>
   get_qmin_qmax_for_qType INT16 False False = Inr (- 32768, 32767) \<and>
   (get_qmin_qmax_for_qType qType reduce_range symmetric = Inr (qmin, qmax) \<longrightarrow>
      qmin \<le> 0 \<and> 0 \<le> qmax)"
  by (cases qType) (auto simp: get_qmin_qmax_for_qType_def range_table_defs split: if_splits)

theorem get_qmin_qmax_for_qType_table_witness:
  "get_qmin_qmax_for_qType INT8 False True = Inr (- 127, 127) \<and>
   (- 127 :: int) \<le> 0 \<and> (0 :: int) \<le> 127"
  using get_qmin_qmax_for_qType_table [of True INT8 False "- 127" 127]
  by simp

text \<open>The same for the four integer kinds, with the existence of the pair.\<close>

lemma get_qmin_qmax_for_qType_int:
  assumes "qType \<in> {INT8, UINT8, INT16, UINT16}"
  shows "\<exists>qmin qmax. get_qmin_qmax_for_qType qType reduce_range symmetric = Inr (qmin, qmax) \<and>
           qmin \<le> 0 \<and> 0 \<le> qmax"
  using assms by (auto simp: get_qmin_qmax_for_qType_def range_table_defs)

subsection \<open>The known vector\<close>

text \<open>
  Claim C1, as stated, says that the first component of
  \<open>quantize_data([1.0, 2.0, 3.0], INT8, symmetric=True)\<close> is 0. It is not: zero is put
  into the range inside \<open>compute_scale_zp\<close>, on that function's own variables, and
  \<open>quantize_data\<close> returns the minimum of the data. (The float 8 kernel and \<open>std_f8\<close>
  play no part on the integer path; they are fixed to close the statement.)
\<close>

theorem quantize_data_known_vector_rmin_counterexample:
  "fst (projr (quantize_data (\<lambda>x s. 0) 1 [1, 2, 3] INT8 True False)) \<noteq> 0"
  by (simp add: quantize_data_eval_defs)

text \<open>
  Claim C1, amended. The call returns \<open>rmin = 1\<close> (the minimum of the data),
  \<open>rmax = 3\<close>, \<open>zero_point = 0\<close>, \<open>scale = 3/127\<close>, and the int8 buffer
  \<open>[42, 85, 127]\<close>, which is \<open>round([1, 2, 3] / scale)\<close> clipped to \<open>[-127, 127]\<close>.
\<close>

theorem quantize_data_known_vector:
  "quantize_data f8 std_f8 [1, 2, 3] INT8 True False =
     Inr (1, 3, 0, Finite (3 / 127), IntArray np_int8 [42, 85, 127])"
  by (simp add: quantize_data_eval_defs)

subsection \<open>Empty input\<close>

text \<open>
  Claim C9 holds for the four integer kinds: the defaults \<open>zero_point = 0\<close>,
  \<open>scale = 1.0\<close> survive because the solver is only called under \<open>if len(data)\<close>,
  and the transform returns an empty array of the storage type.
\<close>

lemma quantize_data_empty_int:
  assumes "qType \<in> {INT8, UINT8, INT16, UINT16}"
  shows "\<exists>dtype. ONNX_TYPE_TO_NP_TYPE qType = Some dtype \<and>
           quantize_data f8 std_f8 [] qType symmetric reduce_range =
             Inr (0, 0, 0, Finite 1, IntArray dtype [])"
  using assms by (auto simp: quantize_data_eval_defs)

text \<open>
  Claim C9 on the float 8 kind. The float 8 path has no such test: it overwrites the
  defaults with \<open>numpy.std(data) / std_f8\<close> (NaN for an empty array) and hands the
  empty buffer to the reference evaluator, which raises ValueError. The call returns
  nothing: neither the tuple \<open>(0, 0, 0, 1.0)\<close> nor an empty float 8 buffer.
\<close>

theorem quantize_data_empty_float8:
  "quantize_data f8 std_f8 [] FLOAT8E4M3FN symmetric False = Inl EvaluatorValueError"
  by (simp add: quantize_data_eval_defs)

subsection \<open>The solver \<open>compute_scale_zp\<close>\<close>

text \<open>Rounding stays between integer bounds.\<close>

lemma py_round_ge:
  assumes "of_int a \<le> x"
  shows "a \<le> py_round x"
proof -
  have "a \<le> \<lfloor>x\<rfloor>" using assms by (simp add: le_floor_iff)
  then show ?thesis by (simp add: py_round_def Let_def)
qed

lemma py_round_le:
  assumes "x \<le> of_int b"
  shows "py_round x \<le> b"
proof (cases "\<lfloor>x\<rfloor> < b")
  case True
  then show ?thesis by (simp add: py_round_def Let_def)
next
  case False
  moreover have "\<lfloor>x\<rfloor> \<le> b" using assms by (simp add: floor_le_iff)
  ultimately have fl: "\<lfloor>x\<rfloor> = b" by simp
  have "of_int \<lfloor>x\<rfloor> \<le> x" by (rule of_int_floor_le)
  with fl assms have "x = of_int b" by simp
  then show ?thesis by (simp add: py_round_def)
qed

text \<open>After lines 211 to 217 the range contains zero, whatever the arguments were.\<close>

lemma adjust_range_bounds:
  assumes "adjust_range rmin rmax symmetric = (lo, hi)"
  shows "lo \<le> 0 \<and> 0 \<le> hi"
  using assms by (auto simp: adjust_range_def Let_def split: if_splits)

lemma adjust_range_asymmetric:
  "rmin \<le> 0 \<Longrightarrow> 0 \<le> rmax \<Longrightarrow> adjust_range rmin rmax False = (rmin, rmax)"
  by (simp add: adjust_range_def)

lemma float32_tiny_pos: "0 < float32_tiny"
  by (simp add: float32_tiny_def)

lemma zero_point_arg_bounds:
  fixes lo hi w scale q :: real
  assumes "lo \<le> 0" "0 \<le> hi" "0 < w" and scale: "scale = (hi - lo) / w" and pos: "0 < scale"
  shows "q \<le> q - lo / scale" and "q - lo / scale \<le> q + w"
proof -
  have d: "0 < hi - lo" using pos assms(3) scale by (simp add: zero_less_divide_iff)
  show "q \<le> q - lo / scale"
    using assms(1) pos by (simp add: divide_nonpos_pos)
  have "- lo * w \<le> (hi - lo) * w"
    using assms(2,3) by (intro mult_right_mono) simp_all
  then have "- lo * w / (hi - lo) \<le> w"
    using d by (simp only: pos_divide_le_eq mult.commute)
  moreover have "lo / scale = lo * w / (hi - lo)"
    by (simp add: scale)
  ultimately show "q - lo / scale \<le> q + w" by simp
qed

text \<open>The two branches of line 220, once the precondition and the division have passed.\<close>

lemma compute_scale_zp_small:
  assumes "qmin \<le> 0" "0 \<le> qmax" "qmin < qmax"
    and "adjust_range rmin rmax symmetric = (lo, hi)"
    and "s = (hi - lo) / of_int (qmax - qmin)" and "s < float32_tiny"
  shows "compute_scale_zp rmin rmax qmin qmax symmetric = Inr (0, 1)"
  using assms by (simp add: compute_scale_zp_def Let_def)

lemma compute_scale_zp_large:
  assumes "qmin \<le> 0" "0 \<le> qmax" "qmin < qmax"
    and "adjust_range rmin rmax symmetric = (lo, hi)"
    and "s = (hi - lo) / of_int (qmax - qmin)" and "\<not> s < float32_tiny"
  shows "compute_scale_zp rmin rmax qmin qmax symmetric =
           Inr (py_round (of_int qmin - lo / s), s)"
  using assms by (simp add: compute_scale_zp_def Let_def)

text \<open>
  Whatever \<open>compute_scale_zp\<close> returns, symmetric or not: the scale is positive and
  \<open>qmin \<le> zero_point \<le> qmax\<close>, as the docstring promises.
\<close>

lemma compute_scale_zp_result:
  assumes "compute_scale_zp rmin rmax qmin qmax symmetric = Inr (zero_point, scale)"
  shows "0 < scale \<and> qmin \<le> zero_point \<and> zero_point \<le> qmax"
proof -
  obtain lo hi where ar: "adjust_range rmin rmax symmetric = (lo, hi)"
    by (cases "adjust_range rmin rmax symmetric")
  from assms have q: "qmin \<le> 0" "0 \<le> qmax" "qmin < qmax"
    by (auto simp: compute_scale_zp_def ar Let_def split: if_splits)
  note b = adjust_range_bounds [OF ar]
  define w :: real where "w = of_int (qmax - qmin)"
  define s where "s = (hi - lo) / w"
  have w: "0 < w" using q(3) by (simp add: w_def)
  have s_eq: "s = (hi - lo) / of_int (qmax - qmin)" by (simp add: s_def w_def)
  show ?thesis
  proof (cases "s < float32_tiny")
    case True
    from assms have "zero_point = 0 \<and> scale = 1"
      unfolding compute_scale_zp_small [OF q ar s_eq True] by simp
    with q show ?thesis by simp
  next
    case False
    from assms have zp: "zero_point = py_round (of_int qmin - lo / s)" and s: "scale = s"
      unfolding compute_scale_zp_large [OF q ar s_eq False] by auto
    from False float32_tiny_pos have pos: "0 < s" by linarith
    have "of_int qmin \<le> of_int qmin - lo / s" "of_int qmin - lo / s \<le> of_int qmin + w"
      using zero_point_arg_bounds [OF _ _ w s_def pos] b by simp_all
    moreover have "of_int qmin + w = of_int qmax" by (simp add: w_def)
    ultimately show ?thesis
      using pos by (simp add: zp s py_round_ge py_round_le)
  qed
qed

lemma compute_scale_zp_returns:
  assumes "qmin \<le> 0" "0 \<le> qmax" "qmin < qmax"
  shows "\<exists>zero_point scale.
           compute_scale_zp rmin rmax qmin qmax symmetric = Inr (zero_point, scale)"
proof -
  obtain lo hi where ar: "adjust_range rmin rmax symmetric = (lo, hi)"
    by (cases "adjust_range rmin rmax symmetric")
  show ?thesis
  proof (cases "(hi - lo) / of_int (qmax - qmin) < float32_tiny")
    case True
    from compute_scale_zp_small [OF assms ar refl True] show ?thesis by blast
  next
    case False
    from compute_scale_zp_large [OF assms ar refl False] show ?thesis by blast
  qed
qed

text \<open>
  Claim C5. For real \<open>rmin \<le> 0 \<le> rmax\<close> and integers \<open>qmin \<le> 0 \<le> qmax\<close> with
  \<open>qmin < qmax\<close>, \<open>compute_scale_zp(rmin, rmax, qmin, qmax, symmetric=False)\<close> returns
  a pair whose zero point lies in \<open>[qmin, qmax]\<close> and whose scale is not negative.
\<close>

theorem compute_scale_zp_asymmetric_bounds:
  assumes "rmin \<le> 0" "0 \<le> rmax" "qmin \<le> 0" "0 \<le> qmax" "qmin < qmax"
  shows "\<exists>zero_point scale.
           compute_scale_zp rmin rmax qmin qmax False = Inr (zero_point, scale) \<and>
           qmin \<le> zero_point \<and> zero_point \<le> qmax \<and> 0 \<le> scale"
proof -
  obtain zero_point scale
    where r: "compute_scale_zp rmin rmax qmin qmax False = Inr (zero_point, scale)"
    using compute_scale_zp_returns [OF assms(3-5)] by blast
  from compute_scale_zp_result [OF r] r show ?thesis by auto
qed

theorem compute_scale_zp_asymmetric_bounds_witness:
  "(- 1 :: real) \<le> 0 \<and> (0 :: real) \<le> 3 \<and> (- 128 :: int) \<le> 0 \<and> (0 :: int) \<le> 127 \<and>
   (- 128 :: int) < 127 \<and>
   compute_scale_zp (- 1) 3 (- 128) 127 False = Inr (- 64, 4 / 255) \<and>
   (- 128 :: int) \<le> - 64 \<and> (- 64 :: int) \<le> 127 \<and> (0 :: real) \<le> 4 / 255"
  using compute_scale_zp_asymmetric_bounds [of "- 1" 3 "- 128" 127]
  by (simp add: compute_scale_zp_def adjust_range_def float32_tiny_def py_round_def)

text \<open>
  Claim C6. When the precondition holds and the scale computed at line 219, from the
  range after zero-extension and optional symmetrization, is below the smallest positive
  normal float32, the function returns \<open>zero_point = 0\<close> and \<open>scale = 1.0\<close> and raises
  nothing. (The scale is only computed when \<open>qmin < qmax\<close>: with \<open>qmin = qmax = 0\<close>
  the division of line 219 raises.) The witness is \<open>compute_scale_zp(0, 0, 0, 255)\<close>.
\<close>

theorem compute_scale_zp_degenerate:
  assumes "qmin \<le> 0" "0 \<le> qmax" "qmin < qmax"
    and "adjust_range rmin rmax symmetric = (lo, hi)"
    and "(hi - lo) / of_int (qmax - qmin) < float32_tiny"
  shows "compute_scale_zp rmin rmax qmin qmax symmetric = Inr (0, 1)"
  using assms by (rule compute_scale_zp_small [OF _ _ _ _ refl])

theorem compute_scale_zp_degenerate_witness:
  "(0 :: int) \<le> 0 \<and> (0 :: int) \<le> 255 \<and> (0 :: int) < 255 \<and>
   adjust_range 0 0 False = (0, 0) \<and>
   ((0 :: real) - 0) / of_int (255 - 0) < float32_tiny \<and>
   compute_scale_zp 0 0 0 255 False = Inr (0, 1)"
proof -
  have ar: "adjust_range 0 0 False = (0, 0)" by (simp add: adjust_range_def)
  have sc: "((0 :: real) - 0) / of_int (255 - 0) < float32_tiny"
    by (simp add: float32_tiny_def)
  from compute_scale_zp_degenerate [OF _ _ _ ar sc] ar sc show ?thesis by simp
qed

text \<open>
  Claim C10. With \<open>qmin < qmax\<close>, for all real \<open>rmin\<close> and \<open>rmax\<close> in any order and
  of any sign and for both values of \<open>symmetric\<close>: if \<open>qmin \<le> 0 \<le> qmax\<close> the function
  returns a pair; an error can only be the precondition error, and only when the
  precondition fails; and the range that the scale and zero point are computed from
  contains zero.
\<close>

theorem compute_scale_zp_total:
  assumes "qmin < qmax"
  shows "(qmin \<le> 0 \<and> 0 \<le> qmax \<longrightarrow>
            (\<exists>zero_point scale.
               compute_scale_zp rmin rmax qmin qmax symmetric = Inr (zero_point, scale))) \<and>
         (\<forall>e. compute_scale_zp rmin rmax qmin qmax symmetric = Inl e \<longrightarrow>
            e = InvalidRange qmin qmax \<and> (0 < qmin \<or> qmax < 0)) \<and>
         fst (adjust_range rmin rmax symmetric) \<le> 0 \<and>
         0 \<le> snd (adjust_range rmin rmax symmetric)"
proof -
  obtain lo hi where ar: "adjust_range rmin rmax symmetric = (lo, hi)"
    by (cases "adjust_range rmin rmax symmetric")
  have "\<exists>zero_point scale.
          compute_scale_zp rmin rmax qmin qmax symmetric = Inr (zero_point, scale)"
    if "qmin \<le> 0" "0 \<le> qmax"
    using that assms by (rule compute_scale_zp_returns)
  moreover have "e = InvalidRange qmin qmax \<and> (0 < qmin \<or> qmax < 0)"
    if "compute_scale_zp rmin rmax qmin qmax symmetric = Inl e" for e
    using that assms by (auto simp: compute_scale_zp_def ar Let_def split: if_splits)
  moreover note adjust_range_bounds [OF ar]
  ultimately show ?thesis by (simp add: ar)
qed

theorem compute_scale_zp_total_witness:
  "(0 :: int) < 255 \<and> (0 :: int) \<le> 0 \<and> (0 :: int) \<le> 255 \<and>
   compute_scale_zp 5 2 0 255 False = Inr (0, 2 / 255) \<and>
   compute_scale_zp (- 2) (- 5) (- 127) 127 True = Inr (0, 2 / 127) \<and>
   compute_scale_zp 0 0 1 255 False = Inl (InvalidRange 1 255) \<and>
   fst (adjust_range 5 2 False) \<le> 0 \<and> 0 \<le> snd (adjust_range 5 2 False)"
  using compute_scale_zp_total [of 0 255 5 2 False]
  by (simp add: compute_scale_zp_def adjust_range_def float32_tiny_def py_round_def)

subsection \<open>The range that \<open>quantize_data\<close> reports\<close>

text \<open>Python's \<open>min\<close> and \<open>max\<close>, walking the list, find the least and greatest element.\<close>

lemma py_min_Min: "py_min x xs = Min (set (x # xs))"
proof (induction xs arbitrary: x)
  case Nil
  then show ?case by simp
next
  case (Cons y ys)
  have "py_min x (y # ys) = py_min (min x y) ys" by simp
  also have "\<dots> = Min (set (min x y # ys))" by (rule Cons.IH)
  also have "\<dots> = Min (set (x # y # ys))"
    by (cases ys) (simp_all add: min.assoc)
  finally show ?case .
qed

lemma py_max_Max: "py_max x xs = Max (set (x # xs))"
proof (induction xs arbitrary: x)
  case Nil
  then show ?case by simp
next
  case (Cons y ys)
  have "py_max x (y # ys) = py_max (max x y) ys" by simp
  also have "\<dots> = Max (set (max x y # ys))" by (rule Cons.IH)
  also have "\<dots> = Max (set (x # y # ys))"
    by (cases ys) (simp_all add: max.assoc)
  finally show ?case .
qed

lemma quantize_data_range:
  assumes "quantize_data f8 std_f8 data qType symmetric reduce_range =
             Inr (rmin, rmax, zero_point, scale, quantized_data)"
  shows "(rmin, rmax) = (case data of [] \<Rightarrow> (0, 0) | x # xs \<Rightarrow> (py_min x xs, py_max x xs))"
  using assms
  by (auto simp: quantize_data_def Let_def split: if_splits sum.splits prod.splits list.splits)

text \<open>
  Claim C2. For non-empty data, whenever \<open>quantize_data\<close> returns (for any target type
  and any setting of \<open>symmetric\<close> and \<open>reduce_range\<close>), the first two components of
  the result are the minimum and the maximum of the data.
\<close>

theorem quantize_data_rmin_rmax:
  assumes "data \<noteq> []"
    and "quantize_data f8 std_f8 data qType symmetric reduce_range =
           Inr (rmin, rmax, zero_point, scale, quantized_data)"
  shows "rmin = Min (set data) \<and> rmax = Max (set data)"
proof -
  from assms(1) obtain x xs where d: "data = x # xs" by (cases data) auto
  from quantize_data_range [OF assms(2)] have "rmin = py_min x xs" "rmax = py_max x xs"
    by (simp_all add: d)
  then show ?thesis unfolding d py_min_Min py_max_Max by simp
qed

theorem quantize_data_rmin_rmax_witness:
  "[1 / 2, - 1, 3] \<noteq> ([] :: real list) \<and>
   quantize_data (\<lambda>x s. 0) 1 [1 / 2, - 1, 3] UINT8 False False =
     Inr (- 1, 3, 64, Finite (4 / 255), IntArray np_uint8 [96, 0, 255]) \<and>
   (- 1 :: real) = Min (set [1 / 2, - 1, 3]) \<and> (3 :: real) = Max (set [1 / 2, - 1, 3])"
proof -
  have r: "quantize_data (\<lambda>x s. 0) 1 [1 / 2, - 1, 3] UINT8 False False =
     Inr (- 1, 3, 64, Finite (4 / 255), IntArray np_uint8 [96, 0, 255])"
    by (simp add: quantize_data_eval_defs)
  from quantize_data_rmin_rmax [OF _ r] r show ?thesis by simp
qed

subsection \<open>The float 8 path of \<open>quantize_data\<close>\<close>

text \<open>
  On the float 8 path \<open>compute_scale_zp_float8\<close> cannot raise, and on a non-empty
  buffer \<open>quantize_nparray\<close> cannot either: the zero point is 0 and the type has a
  storage type.
\<close>

lemma quantize_nparray_float8:
  "arr \<noteq> [] \<Longrightarrow>
   quantize_nparray f8 FLOAT8E4M3FN arr scale 0 low high =
     Inr (Float8Array (map (\<lambda>x. f8 x scale) arr))"
  by (simp add: quantize_nparray_def ONNX_TYPE_TO_NP_TYPE_def)

lemma quantize_data_float8:
  "data \<noteq> [] \<Longrightarrow>
   quantize_data f8 std_f8 data FLOAT8E4M3FN symmetric False =
     (case compute_scale_zp_float8 std_f8 FLOAT8E4M3FN (numpy_std data) of
        Inl e \<Rightarrow> Inl e
      | Inr (zero_point, scale) \<Rightarrow>
          if list_ex nan_byte (map (\<lambda>x. f8 x scale) data)
          then Inl (nan_error data (Float8Array (map (\<lambda>x. f8 x scale) data)))
          else Inr (case data of [] \<Rightarrow> 0 | x # xs \<Rightarrow> py_min x xs,
                    case data of [] \<Rightarrow> 0 | x # xs \<Rightarrow> py_max x xs,
                    zero_point, scale, Float8Array (map (\<lambda>x. f8 x scale) data)))"
  by (simp add: quantize_data_def compute_scale_zp_float8_def quantize_nparray_float8
      astype_uint8_def split: list.splits)

lemma np_min_Min: "xs \<noteq> [] \<Longrightarrow> np_min xs = Min (set xs)"
  unfolding np_min_def py_min_Min by simp

lemma np_max_Max: "xs \<noteq> [] \<Longrightarrow> np_max xs = Max (set xs)"
  unfolding np_max_def py_max_Max by simp

lemma nan_error_ranges:
  assumes "list_ex nan_byte (map g data)"
  shows "nan_error data (Float8Array (map g data)) =
           QuantizationProducedNaN (Min (set data)) (Max (set data))
             (Min (g ` set data)) (Max (g ` set data))"
proof -
  from assms have "data \<noteq> []" by auto
  then show ?thesis
    by (simp add: nan_error_def astype_uint8_def np_min_Min np_max_Max)
qed

text \<open>
  Claim C8. On the FLOAT8E4M3FN path with \<open>reduce_range = False\<close> and a non-empty
  buffer (on an empty one the transform raises and no quantized output exists) the
  parameters are derived and the transform is applied, giving the bytes \<open>q\<close>. The call
  then fails if and only if some byte of \<open>q\<close> has its low seven bits equal to 127; a
  failure is the QuantizationProducedNaN error, carrying the minimum and maximum of the
  data and of the quantized bytes; and a successful call returns \<open>q\<close> with the zero
  point 0 and the derived scale.
\<close>

theorem quantize_data_float8_nan_guard:
  assumes "data \<noteq> []"
  shows "\<exists>scale q.
     compute_scale_zp_float8 std_f8 FLOAT8E4M3FN (numpy_std data) = Inr (0, scale) \<and>
     quantize_nparray f8 FLOAT8E4M3FN data scale 0 None None = Inr (Float8Array q) \<and>
     ((\<exists>e. quantize_data f8 std_f8 data FLOAT8E4M3FN symmetric False = Inl e) \<longleftrightarrow>
        (\<exists>b \<in> set q. b AND 127 = 127)) \<and>
     (\<forall>e. quantize_data f8 std_f8 data FLOAT8E4M3FN symmetric False = Inl e \<longrightarrow>
        e = QuantizationProducedNaN (Min (set data)) (Max (set data))
              (Min (set q)) (Max (set q))) \<and>
     (\<forall>r. quantize_data f8 std_f8 data FLOAT8E4M3FN symmetric False = Inr r \<longrightarrow>
        snd (snd r) = (0, scale, Float8Array q))"
proof -
  obtain scale where sc: "compute_scale_zp_float8 std_f8 FLOAT8E4M3FN (numpy_std data) = Inr (0, scale)"
    by (simp add: compute_scale_zp_float8_def)
  define q where "q = map (\<lambda>x. f8 x scale) data"
  have tr: "quantize_nparray f8 FLOAT8E4M3FN data scale 0 None None = Inr (Float8Array q)"
    by (simp add: quantize_nparray_float8 [OF assms] q_def)
  have ex: "list_ex nan_byte q \<longleftrightarrow> (\<exists>b \<in> set q. b AND 127 = 127)"
    by (simp add: list_ex_iff nan_byte_def)
  have qd: "quantize_data f8 std_f8 data FLOAT8E4M3FN symmetric False =
      (if list_ex nan_byte q then Inl (nan_error data (Float8Array q))
       else Inr (case data of [] \<Rightarrow> 0 | x # xs \<Rightarrow> py_min x xs,
                 case data of [] \<Rightarrow> 0 | x # xs \<Rightarrow> py_max x xs, 0, scale, Float8Array q))"
    by (simp add: quantize_data_float8 [OF assms] sc q_def)
  have err: "nan_error data (Float8Array q) =
      QuantizationProducedNaN (Min (set data)) (Max (set data)) (Min (set q)) (Max (set q))"
    if "list_ex nan_byte q"
    using nan_error_ranges [of "\<lambda>x. f8 x scale" data] that by (simp add: q_def)
  show ?thesis
  proof (cases "list_ex nan_byte q")
    case True
    with qd err ex sc tr show ?thesis by auto
  next
    case False
    with qd ex sc tr show ?thesis by auto
  qed
qed

theorem quantize_data_float8_nan_guard_witness:
  "[0, 0] \<noteq> ([] :: real list) \<and> [0, 2] \<noteq> ([] :: real list) \<and>
   quantize_data (\<lambda>x s. if x = 0 then 255 else 64) 1 [0, 0] FLOAT8E4M3FN False False =
     Inl (QuantizationProducedNaN 0 0 255 255) \<and>
   quantize_data (\<lambda>x s. if x = 0 then 0 else 64) 1 [0, 2] FLOAT8E4M3FN False False =
     Inr (0, 2, 0, Finite 1, Float8Array [0, 64])"
  using
    quantize_data_float8_nan_guard
      [of "[0, 0]" 1 "\<lambda>x s. if x = 0 then 255 else 64" False]
    quantize_data_float8_nan_guard
      [of "[0, 2]" 1 "\<lambda>x s. if x = 0 then 0 else 64" False]
  by (simp add: quantize_data_eval_defs nan_error_def np_min_def np_max_def)


subsection \<open>The parameters that \<open>quantize_data\<close> returns\<close>





text \<open>
  On the float 8 path constant data \<open>[c, c]\<close> have the standard deviation 0, so the
  scale is 0, and the call succeeds whenever the kernel does not answer with a NaN byte.
\<close>

lemma quantize_data_float8_constant:
  assumes "\<not> nan_byte (f8 c (Finite 0))"
  shows "quantize_data f8 std_f8 [c, c] FLOAT8E4M3FN symmetric False =
           Inr (c, c, 0, Finite 0, Float8Array [f8 c (Finite 0), f8 c (Finite 0)])"
  using assms by (simp add: quantize_data_float8 compute_scale_zp_float8_def numpy_std_def)


subsection \<open>The integer branch of \<open>quantize_nparray\<close>\<close>

text \<open>A value inside the range of the storage type survives the cast.\<close>

lemma astype_in_range:
  "- 128 \<le> v \<Longrightarrow> v \<le> 127 \<Longrightarrow> astype np_int8 v = v"
  "0 \<le> v \<Longrightarrow> v \<le> 255 \<Longrightarrow> astype np_uint8 v = v"
  "- 32768 \<le> v \<Longrightarrow> v \<le> 32767 \<Longrightarrow> astype np_int16 v = v"
  "0 \<le> v \<Longrightarrow> v \<le> 65535 \<Longrightarrow> astype np_uint16 v = v"
  by (simp_all add: astype_def int_word_sint uint_word_of_int)

text \<open>
  \<open>numpy.clip\<close> is the clip of the specification when the interval is not empty; on an
  empty interval it returns the upper bound.
\<close>

lemma np_clip_spec: "lo \<le> hi \<Longrightarrow> np_clip q lo hi = spec_clip lo hi q"
  by (auto simp: np_clip_def spec_clip_def)

lemma np_clip_empty: "hi < lo \<Longrightarrow> np_clip q lo hi = hi"
  by (auto simp: np_clip_def)

lemma np_clip_bounds: "min lo hi \<le> np_clip q lo hi \<and> np_clip q lo hi \<le> hi"
  by (auto simp: np_clip_def)

lemma cliplow_ge: "qmin \<le> cliplow qmin low"
  by (simp add: cliplow_def split: option.splits)

lemma cliphigh_le: "cliphigh qmax high \<le> qmax"
  by (simp add: cliphigh_def split: option.splits)

lemma quantize_nparray_int:
  assumes "qType \<in> {INT8, UINT8, INT16, UINT16}" and "scale \<noteq> 0"
    and "ONNX_TYPE_TO_NP_TYPE qType = Some dtype"
    and "get_qmin_qmax_for_qType qType False True = Inr (qmin, qmax)"
  shows "quantize_nparray f8 qType arr (Finite scale) zero_point low high =
           Inr (IntArray dtype
             (map (quantize_elem dtype scale zero_point (cliplow qmin low) (cliphigh qmax high))
                arr))"
  using assms by (auto simp: quantize_nparray_def)

text \<open>The symmetric range of each integer kind lies inside its storage type.\<close>

lemma astype_symmetric_range:
  assumes "qType \<in> {INT8, UINT8, INT16, UINT16}"
    and "ONNX_TYPE_TO_NP_TYPE qType = Some dtype"
    and "get_qmin_qmax_for_qType qType False True = Inr (qmin, qmax)"
    and "qmin \<le> v" "v \<le> qmax"
  shows "astype dtype v = v"
  using assms
  by (auto simp: ONNX_TYPE_TO_NP_TYPE_def get_qmin_qmax_for_qType_def range_table_defs
      astype_in_range)

text \<open>
  Claim C4, amended. For each of the four integer kinds, every buffer and every finite
  non-zero scale, \<open>quantize_nparray\<close> returns an array of the kind's storage type. With
  \<open>(qmin, qmax)\<close> the range of the table for \<open>reduce_range=False, symmetric=True\<close>
  and absent \<open>low\<close>/\<open>high\<close> leaving \<open>qmin\<close>/\<open>qmax\<close>: when
  \<open>max(qmin, low) \<le> min(qmax, high)\<close> the array is the transform of the specification
  (round, add the zero point, clip to that interval, cast) and every element lies in the
  interval; when the interval is empty every element is the cast of \<open>min(qmax, high)\<close>.
  For INT8 every element lies in \<open>[-127, 127]\<close> provided \<open>high\<close> is absent or at
  least -127.
\<close>

theorem quantize_nparray_integer:
  assumes "qType \<in> {INT8, UINT8, INT16, UINT16}" and "scale \<noteq> 0"
  shows "\<exists>dtype qmin qmax out.
           ONNX_TYPE_TO_NP_TYPE qType = Some dtype \<and>
           get_qmin_qmax_for_qType qType False True = Inr (qmin, qmax) \<and>
           quantize_nparray f8 qType arr (Finite scale) zero_point low high =
             Inr (IntArray dtype out) \<and>
           (cliplow qmin low \<le> cliphigh qmax high \<longrightarrow>
              out = spec_transform dtype qmin qmax arr scale zero_point low high \<and>
              (\<forall>v \<in> set out. cliplow qmin low \<le> v \<and> v \<le> cliphigh qmax high)) \<and>
           (cliphigh qmax high < cliplow qmin low \<longrightarrow>
              out = map (\<lambda>x. astype dtype (cliphigh qmax high)) arr) \<and>
           (qType = INT8 \<longrightarrow> (\<forall>h. high = Some h \<longrightarrow> - 127 \<le> h) \<longrightarrow>
              (\<forall>v \<in> set out. - 127 \<le> v \<and> v \<le> 127))"
proof -
  from assms(1) obtain dtype where dt: "ONNX_TYPE_TO_NP_TYPE qType = Some dtype"
    by (auto simp: ONNX_TYPE_TO_NP_TYPE_def)
  from get_qmin_qmax_for_qType_int [OF assms(1)] obtain qmin qmax
    where qr: "get_qmin_qmax_for_qType qType False True = Inr (qmin, qmax)" by blast
  define lo where "lo = cliplow qmin low"
  define hi where "hi = cliphigh qmax high"
  define out where "out = map (quantize_elem dtype scale zero_point lo hi) arr"
  have run: "quantize_nparray f8 qType arr (Finite scale) zero_point low high =
               Inr (IntArray dtype out)"
    unfolding out_def lo_def hi_def by (rule quantize_nparray_int [OF assms dt qr])
  have lo: "qmin \<le> lo" unfolding lo_def by (rule cliplow_ge)
  have hi: "hi \<le> qmax" unfolding hi_def by (rule cliphigh_le)
  have cast: "astype dtype (np_clip q lo hi) = np_clip q lo hi" if "lo \<le> hi" for q
  proof -
    from np_clip_bounds [of lo hi q] that lo hi
    have "qmin \<le> np_clip q lo hi" "np_clip q lo hi \<le> qmax" by simp_all
    then show ?thesis by (rule astype_symmetric_range [OF assms(1) dt qr])
  qed
  have elem_eq: "quantize_elem dtype scale zero_point lo hi x =
                   spec_clip lo hi (py_round (x / scale) + zero_point)"
    if "lo \<le> hi" for x
  proof -
    have "quantize_elem dtype scale zero_point lo hi x =
            np_clip (py_round (x / scale) + zero_point) lo hi"
      unfolding quantize_elem_def by (rule cast [OF that])
    then show ?thesis by (simp add: np_clip_spec [OF that])
  qed
  have elem_bd: "lo \<le> quantize_elem dtype scale zero_point lo hi x \<and>
                 quantize_elem dtype scale zero_point lo hi x \<le> hi"
    if "lo \<le> hi" for x
    using np_clip_bounds [of lo hi "py_round (x / scale) + zero_point"] that
    by (simp add: quantize_elem_def cast [OF that])
  have nonempty: "out = spec_transform dtype qmin qmax arr scale zero_point low high \<and>
                  (\<forall>v \<in> set out. lo \<le> v \<and> v \<le> hi)"
    if "lo \<le> hi"
  proof -
    have "astype dtype (spec_clip lo hi q) = spec_clip lo hi q" for q
      using cast [OF that, of q] unfolding np_clip_spec [OF that] .
    then have "spec_transform dtype qmin qmax arr scale zero_point low high =
        map (\<lambda>x. spec_clip lo hi (py_round (x / scale) + zero_point)) arr"
      by (simp add: spec_transform_def lo_def hi_def cliplow_def cliphigh_def
          split: option.splits)
    moreover have "out = map (\<lambda>x. spec_clip lo hi (py_round (x / scale) + zero_point)) arr"
      unfolding out_def by (simp add: elem_eq [OF that])
    moreover have "\<forall>v \<in> set out. lo \<le> v \<and> v \<le> hi"
    proof
      fix v assume "v \<in> set out"
      then obtain x where "v = quantize_elem dtype scale zero_point lo hi x"
        unfolding out_def by auto
      with elem_bd [OF that, of x] show "lo \<le> v \<and> v \<le> hi" by simp
    qed
    ultimately show ?thesis by simp
  qed
  have empty: "out = map (\<lambda>x. astype dtype hi) arr" if "hi < lo"
    unfolding out_def by (simp add: quantize_elem_def np_clip_empty [OF that])
  have int8: "\<forall>v \<in> set out. - 127 \<le> v \<and> v \<le> 127"
    if q: "qType = INT8" and h: "\<forall>h. high = Some h \<longrightarrow> - 127 \<le> h"
  proof -
    from q dt qr have v: "dtype = np_int8" "qmin = - 127" "qmax = 127"
      by (auto simp: ONNX_TYPE_TO_NP_TYPE_def get_qmin_qmax_for_qType_def range_table_defs)
    from h have "- 127 \<le> hi"
      by (cases high) (simp_all add: hi_def cliphigh_def v)
    moreover from lo hi v have "- 127 \<le> lo" "hi \<le> 127" by simp_all
    ultimately have c: "- 127 \<le> np_clip q lo hi \<and> np_clip q lo hi \<le> 127" for q
      using np_clip_bounds [of lo hi q] by auto
    have "- 127 \<le> quantize_elem dtype scale zero_point lo hi x \<and>
          quantize_elem dtype scale zero_point lo hi x \<le> 127" for x
    proof -
      let ?c = "np_clip (py_round (x / scale) + zero_point) lo hi"
      from c [of "py_round (x / scale) + zero_point"] have "astype np_int8 ?c = ?c"
        by (intro astype_in_range(1)) simp_all
      with c [of "py_round (x / scale) + zero_point"] show ?thesis
        by (simp add: quantize_elem_def v)
    qed
    then show ?thesis unfolding out_def by auto
  qed
  from dt qr run nonempty empty int8 show ?thesis
    unfolding lo_def hi_def by blast
qed

theorem quantize_nparray_integer_witness:
  "INT8 \<in> {INT8, UINT8, INT16, UINT16} \<and> (3 / 127 :: real) \<noteq> 0 \<and>
   ONNX_TYPE_TO_NP_TYPE INT8 = Some np_int8 \<and>
   get_qmin_qmax_for_qType INT8 False True = Inr (- 127, 127) \<and>
   quantize_nparray (\<lambda>x s. 0) INT8 [1, 2, 3, - 4] (Finite (3 / 127)) 0 None None =
     Inr (IntArray np_int8 [42, 85, 127, - 127]) \<and>
   cliplow (- 127) None \<le> cliphigh 127 None \<and>
   [42, 85, 127, - 127] = spec_transform np_int8 (- 127) 127 [1, 2, 3, - 4] (3 / 127) 0 None None \<and>
   quantize_nparray (\<lambda>x s. 0) INT8 [1, 2, 3, - 4] (Finite (3 / 127)) 0 (Some 50) (Some 40) =
     Inr (IntArray np_int8 [40, 40, 40, 40]) \<and>
   cliphigh 127 (Some 40) < cliplow (- 127) (Some 50)"
  using quantize_nparray_integer [of INT8 "3 / 127" "\<lambda>x s. 0" "[1, 2, 3, - 4]" 0 None None]
    quantize_nparray_integer [of INT8 "3 / 127" "\<lambda>x s. 0" "[1, 2, 3, - 4]" 0 "Some 50" "Some 40"]
  by (simp add: quantize_data_eval_defs spec_transform_def spec_clip_def)

text \<open>
  Claim C4, as stated, says that INT8 output always lies in \<open>[-127, 127]\<close>. With
  \<open>high = -128\<close> the upper clip bound is \<open>min(127, -128) = -128\<close>, below the lower
  bound -127; \<open>numpy.clip\<close> then returns the upper bound, and the int8 array holds -128.
\<close>

theorem quantize_nparray_int8_high_counterexample:
  "quantize_nparray (\<lambda>x s. 0) INT8 [0] (Finite 1) 0 None (Some (- 128)) =
     Inr (IntArray np_int8 [- 128]) \<and>
   \<not> (- 127 :: int) \<le> - 128"
  by (simp add: quantize_data_eval_defs)

end
